theory Spec2Isabelle
  imports Complex_Main
begin

section \<open>Python values, exceptions and calls\<close>

text \<open>
  The module \<^verbatim>\<open>time_handling/time_formatters.py\<close> and its companion
  \<^verbatim>\<open>time_formatters_TEST_AND_NEW_METHODS.py\<close> are embedded as functions over a
  small universe of Python values. A raised exception is the left summand of the result.
  A source name that starts with an underscore is written with the prefix \<open>u_\<close>
  (\<^verbatim>\<open>_validate_option\<close> is \<open>u_validate_option\<close>).

  A Python \<^verbatim>\<open>int\<close> is an \<open>int\<close>. A Python \<^verbatim>\<open>float\<close> is the
  rational number it denotes, and arithmetic on it is exact: the rounding of IEEE doubles is
  outside this model.
\<close>

datatype pynum = PInt int | PFloat rat

datatype pyval =
    NoneV
  | Str string
  | Num pynum
  | Cls string
  | Obj string "pyval list"
  | Series "pyval list"
  | DataFrame "(string \<times> pyval list) list"
  | NdArray "pyval list"

datatype msg =
    NotSupported string pyval "pyval list"
  | PrecisionBetween int int
  | OnlyPandasSupports int
  | UnsupportedUnit string "string list"
  | FormatStringMissing
  | FormattingStringMissing
  | FormatMismatch
  | ConvertToMissing
  | NotOrderable string string
  | UnexpectedKeyword string
  | MissingArguments "string list"
  | TooManyArguments nat nat
  | NotCallable
  | UnboundLocal string
  | UnsupportedObjectType string
  | InvalidFormatOrComponents msg
  | ConversionError string msg
  | MethodError string msg
  | Library string

datatype pyerr =
    ValueError msg
  | TypeError msg
  | RuntimeError msg
  | KeyError msg
  | IndexError msg
  | AttributeError msg
  | UnboundLocalError msg
  | Exception msg

type_synonym 'a result = "pyerr + 'a"

fun msg_of :: "pyerr \<Rightarrow> msg" where
  "msg_of (ValueError m) = m"
| "msg_of (TypeError m) = m"
| "msg_of (RuntimeError m) = m"
| "msg_of (KeyError m) = m"
| "msg_of (IndexError m) = m"
| "msg_of (AttributeError m) = m"
| "msg_of (UnboundLocalError m) = m"
| "msg_of (Exception m) = m"

fun is_ValueError :: "pyerr \<Rightarrow> bool" where
  "is_ValueError (ValueError m) = True"
| "is_ValueError e = False"

text \<open>Sequencing: the second computation runs only if the first one raised nothing.\<close>

definition guard :: "unit result \<Rightarrow> 'a result \<Rightarrow> 'a result" where
  "guard r k = (case r of Inl e \<Rightarrow> Inl e | Inr u \<Rightarrow> k)"

definition bind :: "'a result \<Rightarrow> ('a \<Rightarrow> 'b result) \<Rightarrow> 'b result" where
  "bind r k = (case r of Inl e \<Rightarrow> Inl e | Inr v \<Rightarrow> k v)"

text \<open>Truth value of a string-or-None argument (\<^verbatim>\<open>not dt_fmt_str\<close>).\<close>

fun truthy :: "string option \<Rightarrow> bool" where
  "truthy None = False"
| "truthy (Some s) = (s \<noteq> [])"

text \<open>
  A \<^verbatim>\<open>lambda\<close> is its parameter names and its body. Calling it with positional
  arguments raises \<^verbatim>\<open>TypeError\<close> unless there is exactly one argument per parameter
  (no lambda of the module has a default or a starred parameter).
\<close>

record pyfun =
  params :: "string list"
  body :: "pyval list \<Rightarrow> pyval result"

definition call :: "pyfun \<Rightarrow> pyval list \<Rightarrow> pyval result" where
  "call f args =
     (if length args < length (params f)
        then Inl (TypeError (MissingArguments (drop (length args) (params f))))
      else if length (params f) < length args
        then Inl (TypeError (TooManyArguments (length (params f)) (length args)))
      else body f args)"

text \<open>\<^verbatim>\<open>d.get(k)\<close> is \<^verbatim>\<open>None\<close> for a missing key, and calling \<^verbatim>\<open>None\<close>
  raises \<^verbatim>\<open>TypeError\<close>.\<close>

definition call_opt :: "pyfun option \<Rightarrow> pyval list \<Rightarrow> pyval result" where
  "call_opt f args = (case f of None \<Rightarrow> Inl (TypeError NotCallable) | Some g \<Rightarrow> call g args)"

text \<open>
  Binding the arguments of a call to a \<^verbatim>\<open>def\<close> whose parameters are \<open>ps\<close>
  (none with a default), with or without a \<^verbatim>\<open>*args\<close> parameter and without
  \<^verbatim>\<open>**kwargs\<close>: \<open>npos\<close> positional arguments and the keyword arguments \<open>kws\<close>.
\<close>

definition bind_arguments :: "string list \<Rightarrow> bool \<Rightarrow> nat \<Rightarrow> string list \<Rightarrow> unit result" where
  "bind_arguments ps star npos kws =
     (if length ps < npos \<and> \<not> star
        then Inl (TypeError (TooManyArguments (length ps) npos))
      else case List.find (\<lambda>k. k \<notin> set (drop npos ps)) kws of
             Some k \<Rightarrow> Inl (TypeError (UnexpectedKeyword k))
           | None \<Rightarrow>
               (case filter (\<lambda>p. p \<notin> set kws) (drop npos ps) of
                  [] \<Rightarrow> Inr ()
                | m # ms \<Rightarrow> Inl (TypeError (MissingArguments (m # ms)))))"

text \<open>
  The libraries (\<^verbatim>\<open>datetime\<close>, \<^verbatim>\<open>dateutil\<close>, \<^verbatim>\<open>pandas\<close>, \<^verbatim>\<open>numpy\<close>,
  \<^verbatim>\<open>arrow\<close>, \<^verbatim>\<open>time\<close>) are a parameter \<open>ext\<close>: the name of the library
  function or method and the argument values give a value or an exception.
\<close>

type_synonym library = "string \<Rightarrow> pyval list \<Rightarrow> pyval result"

text \<open>
  The tables of \<^verbatim>\<open>paramlib.global_parameters\<close> are not part of the sources: they are a
  parameter too.
\<close>

record global_parameters =
  numpy_unit_list :: "string list"
  pandas_unit_list :: "string list"
  unit_factor_dict :: "(string \<times> pynum) list"

section \<open>Input validation\<close>

definition u_validate_option :: "string \<Rightarrow> pyval \<Rightarrow> pyval list \<Rightarrow> unit result" where
  "u_validate_option explanation option allowed_options =
     (if option \<notin> set allowed_options
        then Inl (ValueError (NotSupported explanation option allowed_options))
      else Inr ())"

text \<open>
  \<^verbatim>\<open>_validate_precision\<close>: the first test guards \<^verbatim>\<open>None\<close>, the second compares
  \<^verbatim>\<open>7 <= frac_precision\<close> unguarded, and an \<^verbatim>\<open>int\<close> is not ordered against
  \<^verbatim>\<open>None\<close>.
\<close>

definition u_validate_precision :: "int option \<Rightarrow> string \<Rightarrow> int \<Rightarrow> int \<Rightarrow> unit result" where
  "u_validate_precision frac_precision option min_prec max_prec =
     (if frac_precision \<noteq> None
         \<and> \<not> (min_prec \<le> the frac_precision \<and> the frac_precision \<le> max_prec)
        then Inl (ValueError (PrecisionBetween min_prec max_prec))
      else case frac_precision of
             None \<Rightarrow> Inl (TypeError (NotOrderable ''int'' ''NoneType''))
           | Some p \<Rightarrow>
               if (7 \<le> p \<and> p \<le> max_prec) \<and> option \<noteq> ''pandas''
                 then Inl (ValueError (OnlyPandasSupports p))
               else Inr ())"

definition u_validate_unit :: "global_parameters \<Rightarrow> string \<Rightarrow> string \<Rightarrow> unit result" where
  "u_validate_unit gp unit modul =
     (if modul = ''numpy'' \<and> unit \<notin> set (numpy_unit_list gp)
        then Inl (ValueError (UnsupportedUnit ''numpy.datetime64'' (numpy_unit_list gp)))
      else if modul = ''pandas'' \<and> unit \<notin> set (pandas_unit_list gp)
        then Inl (ValueError (UnsupportedUnit ''pandas.Timestamp'' (pandas_unit_list gp)))
      else Inr ())"

section \<open>Parsing a time string\<close>

definition time_str_parsing_dict :: "library \<Rightarrow> (string \<times> pyfun) list" where
  "time_str_parsing_dict ext =
     [(''datetime'', \<lparr>params = [''datetime_str'', ''dt_fmt_str''],
                      body = (\<lambda>a. ext ''datetime.strptime'' [a ! 0, a ! 1])\<rparr>),
      (''dateutil'', \<lparr>params = [''datetime_str'', ''dt_fmt_str''],
                      body = (\<lambda>a. ext ''parser.parse'' [a ! 0, a ! 1])\<rparr>),
      (''pandas'', \<lparr>params = [''datetime_str'', ''dt_fmt_str'', ''unit''],
                    body = (\<lambda>a. ext ''pd.to_datetime(format,unit)'' [a ! 0, a ! 1, a ! 2])\<rparr>),
      (''numpy'', \<lparr>params = [''datetime_str'', ''dt_fmt_str'', ''unit''],
                   body = (\<lambda>a. ext ''np.datetime64'' [a ! 0, a ! 2])\<rparr>),
      (''arrow'', \<lparr>params = [''datetime_str'', ''dt_fmt_str''],
                   body = (\<lambda>a. ext ''arrow.get'' [a ! 0, a ! 1])\<rparr>)]"

fun opt_str :: "string option \<Rightarrow> pyval" where
  "opt_str None = NoneV"
| "opt_str (Some s) = Str s"

definition parse_time_string ::
  "library \<Rightarrow> string \<Rightarrow> string option \<Rightarrow> string \<Rightarrow> string \<Rightarrow> pyval result" where
  "parse_time_string ext datetime_str dt_fmt_str modul unit =
     guard (u_validate_option ''Module'' (Str modul)
              (map (Str \<circ> fst) (time_str_parsing_dict ext)))
       (if \<not> truthy dt_fmt_str then Inl (ValueError FormatStringMissing)
        else
          (let parse_func = map_of (time_str_parsing_dict ext) modul;
               attempt =
                 (if modul = ''pandas''
                    then call_opt parse_func [Str datetime_str, opt_str dt_fmt_str, Str unit]
                  else call_opt parse_func [Str datetime_str, opt_str dt_fmt_str])
           in case attempt of
                Inl e \<Rightarrow> if is_ValueError e then Inl (ValueError FormatMismatch) else Inl e
              | Inr datetime_obj \<Rightarrow> Inr datetime_obj))"

section \<open>Numbers\<close>

fun val :: "pynum \<Rightarrow> rat" where
  "val (PInt i) = of_int i"
| "val (PFloat q) = q"

text \<open>\<^verbatim>\<open>x // n\<close> and \<^verbatim>\<open>x % n\<close> for a non-zero \<^verbatim>\<open>int\<close> literal \<open>n\<close>:
  floor division, on an \<^verbatim>\<open>int\<close> and on a \<^verbatim>\<open>float\<close>.\<close>

fun py_floordiv :: "pynum \<Rightarrow> int \<Rightarrow> pynum" where
  "py_floordiv (PInt a) n = PInt (a div n)"
| "py_floordiv (PFloat q) n = PFloat (of_int \<lfloor>q / of_int n\<rfloor>)"

fun py_mod :: "pynum \<Rightarrow> int \<Rightarrow> pynum" where
  "py_mod (PInt a) n = PInt (a mod n)"
| "py_mod (PFloat q) n = PFloat (q - of_int n * of_int \<lfloor>q / of_int n\<rfloor>)"

definition py_divmod :: "pynum \<Rightarrow> int \<Rightarrow> pynum \<times> pynum" where
  "py_divmod x n = (py_floordiv x n, py_mod x n)"

text \<open>\<^verbatim>\<open>round\<close> rounds a half to the even neighbour.\<close>

definition round_half_even :: "rat \<Rightarrow> int" where
  "round_half_even q =
     (let f = \<lfloor>q\<rfloor>; d = q - of_int f
      in if d < 1 / 2 then f else if 1 / 2 < d then f + 1 else if even f then f else f + 1)"

text \<open>\<^verbatim>\<open>round(x)\<close> is an \<^verbatim>\<open>int\<close>; \<^verbatim>\<open>round(x, ndigits)\<close> has the type of
  \<open>x\<close>.\<close>

fun py_round1 :: "pynum \<Rightarrow> pynum" where
  "py_round1 (PInt a) = PInt a"
| "py_round1 (PFloat q) = PInt (round_half_even q)"

fun py_round :: "pynum \<Rightarrow> int \<Rightarrow> pynum" where
  "py_round (PInt a) ndigits =
     (if 0 \<le> ndigits then PInt a
      else PInt (round_half_even (of_int a / 10 ^ nat (- ndigits)) * 10 ^ nat (- ndigits)))"
| "py_round (PFloat q) ndigits =
     (if 0 \<le> ndigits
        then PFloat (of_int (round_half_even (q * 10 ^ nat ndigits)) / 10 ^ nat ndigits)
      else PFloat (of_int (round_half_even (q / 10 ^ nat (- ndigits))) * 10 ^ nat (- ndigits)))"

section \<open>Parsing an epoch offset\<close>

definition floated_time_parsing_dict :: "library \<Rightarrow> (string \<times> pyfun) list" where
  "floated_time_parsing_dict ext =
     [(''datetime'', \<lparr>params = [''floated_time'', ''_''],
                      body = (\<lambda>a. ext ''datetime.fromtimestamp'' [a ! 0])\<rparr>),
      (''time'', \<lparr>params = [''floated_time''],
                  body = (\<lambda>a. ext ''datetime(*time.localtime()[:6])'' [a ! 0])\<rparr>),
      (''pandas'', \<lparr>params = [''floated_time'', ''unit''],
                    body = (\<lambda>a. ext ''pd.to_datetime(unit)'' [a ! 0, a ! 1])\<rparr>),
      (''numpy'', \<lparr>params = [''floated_time'', ''unit''],
                   body = (\<lambda>a. ext ''np.datetime64'' [a ! 0, a ! 1])\<rparr>),
      (''arrow'', \<lparr>params = [''floated_time'', ''_''],
                   body = (\<lambda>a. ext ''arrow.get'' [a ! 0])\<rparr>)]"

definition u_float_time_parser ::
  "library \<Rightarrow> global_parameters \<Rightarrow> pyval \<Rightarrow> string \<Rightarrow> string \<Rightarrow> pyval result" where
  "u_float_time_parser ext gp floated_time modul unit =
     guard (u_validate_option ''Object type conversion'' (Str modul)
              (map (Str \<circ> fst) (floated_time_parsing_dict ext)))
       (guard (u_validate_unit gp unit modul)
          (call_opt (map_of (floated_time_parsing_dict ext) modul) [floated_time, Str unit]))"

definition u_time_str_parts_fmts :: "string list" where
  "u_time_str_parts_fmts =
     [''{} days {} hours {} minutes {} seconds'', ''{} hours {} minutes {} seconds'']"

text \<open>
  \<^verbatim>\<open>format_string\<close> (package \<^verbatim>\<open>strings.information_output_formatters\<close>) is not
  part of the sources: it is the parameter \<open>format_string\<close>, given the template and the
  tuple of components. The handler turns its \<^verbatim>\<open>KeyError\<close>, \<^verbatim>\<open>IndexError\<close> and
  \<^verbatim>\<open>ValueError\<close> into \<^verbatim>\<open>ValueError\<close>.
\<close>

fun is_format_failure :: "pyerr \<Rightarrow> bool" where
  "is_format_failure (KeyError m) = True"
| "is_format_failure (IndexError m) = True"
| "is_format_failure (ValueError m) = True"
| "is_format_failure e = False"

definition reraise_as_ValueError :: "'s result \<Rightarrow> 's result" where
  "reraise_as_ValueError attempt =
     (case attempt of
        Inl e \<Rightarrow>
          if is_format_failure e then Inl (ValueError (InvalidFormatOrComponents (msg_of e)))
          else Inl e
      | Inr time_parts_string \<Rightarrow> Inr time_parts_string)"

definition u_format_arbitrary_time ::
  "(string \<Rightarrow> pynum list \<Rightarrow> 's result) \<Rightarrow> pynum \<Rightarrow> int option \<Rightarrow> 's result" where
  "u_format_arbitrary_time format_string floated_time frac_precision =
     (let (days, hours) = py_divmod (py_floordiv floated_time 3600) 24;
          (minutes, seconds) = py_divmod (py_mod floated_time 3600) 60
      in case frac_precision of
           None \<Rightarrow> Inl (TypeError (NotOrderable ''NoneType'' ''int''))
         | Some p \<Rightarrow>
             (let frac_precision' = (if 6 < p then 6 else p);
                  seconds' = py_round seconds frac_precision'
              in reraise_as_ValueError
                   (if 0 < val days
                      then format_string (u_time_str_parts_fmts ! 0)
                             [days, hours, minutes, seconds']
                    else format_string (u_time_str_parts_fmts ! 1)
                           [hours, minutes, seconds'])))"

definition u_parse_float_to_string ::
  "library \<Rightarrow> global_parameters \<Rightarrow> (string \<Rightarrow> pynum list \<Rightarrow> pyval result) \<Rightarrow>
   pynum \<Rightarrow> int option \<Rightarrow> string \<Rightarrow> string option \<Rightarrow> string \<Rightarrow> string \<Rightarrow> pyval result" where
  "u_parse_float_to_string ext gp format_string floated_time frac_precision origin
       dt_fmt_str unit modul =
     (if origin = ''arbitrary''
        then u_format_arbitrary_time format_string floated_time frac_precision
      else if origin = ''unix'' then
        (case frac_precision of
           Some p \<Rightarrow>
             if p \<le> 6 then
               bind (u_float_time_parser ext gp (Num (py_round1 floated_time)) modul unit)
                 (\<lambda>dt_obj. ext ''strftime'' [dt_obj, opt_str dt_fmt_str])
             else if 7 \<le> p \<and> p \<le> 9 then
               ext ''get_nano_datetime'' [Num floated_time, Str modul]
             else Inl (UnboundLocalError (UnboundLocal ''dt_str''))
         | None \<Rightarrow>
             bind (u_float_time_parser ext gp (Num floated_time) modul unit)
               (\<lambda>dt_obj. ext ''strftime'' [dt_obj, opt_str dt_fmt_str]))
      else Inr NoneV)"

definition parse_float_time ::
  "library \<Rightarrow> global_parameters \<Rightarrow> (string \<Rightarrow> pynum list \<Rightarrow> pyval result) \<Rightarrow>
   pynum \<Rightarrow> int option \<Rightarrow> string \<Rightarrow> string \<Rightarrow> string option \<Rightarrow> string \<Rightarrow> pyval result" where
  "parse_float_time ext gp format_string datetime_float frac_precision origin unit
       dt_fmt_str modul =
     guard (u_validate_option ''Object type conversion'' (Str modul)
              (Str ''str'' # map (Str \<circ> fst) (floated_time_parsing_dict ext)))
       (if modul \<noteq> ''str'' \<and> \<not> truthy dt_fmt_str
          then Inl (ValueError FormattingStringMissing)
        else
          guard (u_validate_precision frac_precision modul 0 9)
            (guard (u_validate_unit gp unit modul)
               (if modul = ''str''
                  then u_parse_float_to_string ext gp format_string datetime_float
                         frac_precision origin dt_fmt_str unit modul
                else u_float_time_parser ext gp (Num datetime_float) modul unit)))"

section \<open>Total time of series and tables\<close>

text \<open>
  A \<^verbatim>\<open>Series\<close> is the list of its cells, a \<^verbatim>\<open>DataFrame\<close> the list of its labelled
  columns, in column order; a label may occur more than once. What
  \<^verbatim>\<open>sel.astype(int_class) * unit_factor\<close> gives for a selection \<open>sel\<close> of columns is
  pandas' business (which cells can be cast, the type of the product, what happens when it
  overflows): it is the parameter \<open>cast\<close>, from the selected columns (one for a
  \<^verbatim>\<open>Series\<close> and for a label that occurs once, several for a repeated label), the
  integer class and the factor to the columns of the product, or to the exception raised.
  pandas keeps the shape: the product has one column for each selected column, so for a
  \<^verbatim>\<open>Series\<close> it is the one column that \<open>concat\<close> returns below.
\<close>

type_synonym scaled_cast = "pyval list list \<Rightarrow> pyval \<Rightarrow> pyval \<Rightarrow> pyval list list result"

text \<open>\<^verbatim>\<open>df[col]\<close> selects every column with the label \<open>col\<close>.\<close>

definition columns_of :: "(string \<times> pyval list) list \<Rightarrow> string \<Rightarrow> pyval list list" where
  "columns_of df col = map snd (filter (\<lambda>(n, c). n = col) df)"

definition select :: "(string \<times> pyval list) list \<Rightarrow> string \<Rightarrow> pyval list list result" where
  "select df col =
     (case columns_of df col of
        [] \<Rightarrow> Inl (KeyError (Library col))
      | c # cs \<Rightarrow> Inr (c # cs))"

text \<open>\<^verbatim>\<open>df[col] = value\<close> for an existing label: the columns with that label take the
  columns of the value, in order.\<close>

fun frame_put ::
  "(string \<times> pyval list) list \<Rightarrow> string \<Rightarrow> pyval list list \<Rightarrow> (string \<times> pyval list) list" where
  "frame_put [] col vs = []"
| "frame_put ((n, c) # rest) col vs =
     (if n = col
        then (case vs of
                [] \<Rightarrow> (n, c) # frame_put rest col []
              | v # vs' \<Rightarrow> (n, v) # frame_put rest col vs')
      else (n, c) # frame_put rest col vs)"

text \<open>The column loop of \<^verbatim>\<open>_total_time_complex_data\<close>, over the labels in column
  order: \<open>aux\<close> is \<^verbatim>\<open>dt_obj_aux\<close>, updated label by label; a \<^verbatim>\<open>ValueError\<close> skips
  the label, any other exception leaves the loop.\<close>

fun convert_columns ::
  "scaled_cast \<Rightarrow> pyval \<Rightarrow> pyval \<Rightarrow> string list \<Rightarrow> (string \<times> pyval list) list \<Rightarrow>
   (string \<times> pyval list) list result" where
  "convert_columns cast int_class unit_fac [] aux = Inr aux"
| "convert_columns cast int_class unit_fac (col # cols) aux =
     (case bind (select aux col) (\<lambda>sel. cast sel int_class unit_fac) of
        Inl e \<Rightarrow>
          if is_ValueError e then convert_columns cast int_class unit_fac cols aux
          else Inl e
      | Inr vs \<Rightarrow> convert_columns cast int_class unit_fac cols (frame_put aux col vs))"

definition u_total_time_complex_data ::
  "library \<Rightarrow> scaled_cast \<Rightarrow> pyval \<Rightarrow> pyval \<Rightarrow> pyval \<Rightarrow> pyval result" where
  "u_total_time_complex_data ext cast datetime_obj int_class unit_fac =
     (case datetime_obj of
        Series col \<Rightarrow>
          (case cast [col] int_class unit_fac of
             Inl err \<Rightarrow>
               Inl (RuntimeError (MethodError ''_total_time_complex_data'' (msg_of err)))
           | Inr vs \<Rightarrow> Inr (Series (concat vs)))
      | DataFrame df \<Rightarrow>
          (case convert_columns cast int_class unit_fac (map fst df) df of
             Inl err \<Rightarrow>
               Inl (RuntimeError (MethodError ''_total_time_complex_data'' (msg_of err)))
           | Inr aux \<Rightarrow> Inr (DataFrame aux))
      | _ \<Rightarrow> bind (ext ''copy'' [datetime_obj]) (\<lambda>dt_obj_aux. Inr NoneV))"

subsection \<open>The variant of \<^verbatim>\<open>time_formatters_TEST_AND_NEW_METHODS.py\<close>\<close>

definition date_unit_factor_dict :: "(string \<times> pynum) list" where
  "date_unit_factor_dict =
     [(''D'', PInt 1000),
      (''s'', PInt 1),
      (''ms'', PFloat (1 / 1000)),
      (''us'', PFloat (1 / 1000000)),
      (''ns'', PFloat (1 / 1000000000))]"

text \<open>Its column loop works on a fresh copy in every round and keeps none of them.\<close>

fun try_columns ::
  "scaled_cast \<Rightarrow> pyval \<Rightarrow> pyval \<Rightarrow> string list \<Rightarrow> (string \<times> pyval list) list \<Rightarrow>
   unit result" where
  "try_columns cast int_class date_unit_factor [] df = Inr ()"
| "try_columns cast int_class date_unit_factor (col # cols) df =
     (case bind (select df col) (\<lambda>sel. cast sel int_class date_unit_factor) of
        Inl e \<Rightarrow>
          if is_ValueError e then try_columns cast int_class date_unit_factor cols df
          else Inl e
      | Inr vs \<Rightarrow> try_columns cast int_class date_unit_factor cols df)"

text \<open>The \<^verbatim>\<open>series\<close> branch ends without a \<^verbatim>\<open>return\<close>; the
  \<^verbatim>\<open>dataframe\<close> branch returns \<^verbatim>\<open>datetime_obj\<close>.\<close>

definition total_time_complex_data ::
  "scaled_cast \<Rightarrow> pyval \<Rightarrow> pyval \<Rightarrow> pyval \<Rightarrow> pyval result" where
  "total_time_complex_data cast datetime_obj int_class date_unit_factor =
     (case datetime_obj of
        Series col \<Rightarrow>
          (case cast [col] int_class date_unit_factor of
             Inl err \<Rightarrow> Inl (Exception (msg_of err))
           | Inr total_time_obj \<Rightarrow> Inr NoneV)
      | DataFrame df \<Rightarrow>
          (case try_columns cast int_class date_unit_factor (map fst df) df of
             Inl err \<Rightarrow> Inl (Exception (msg_of err))
           | Inr u \<Rightarrow> Inr (DataFrame df))
      | _ \<Rightarrow> Inr NoneV)"

section \<open>Total time of one object\<close>

text \<open>
  Modelled from the spec: \<^verbatim>\<open>get_type_str(obj, lowercase=True)\<close> of
  \<^verbatim>\<open>introspection_utils\<close> is not part of the sources; it gives the lower-case name of
  the type of the value, the "detected source kind". An \<open>Obj\<close> carries that name.
\<close>

fun get_type_str :: "pyval \<Rightarrow> string" where
  "get_type_str NoneV = ''nonetype''"
| "get_type_str (Str s) = ''str''"
| "get_type_str (Num (PInt i)) = ''int''"
| "get_type_str (Num (PFloat q)) = ''float''"
| "get_type_str (Cls c) = ''type''"
| "get_type_str (Obj t xs) = t"
| "get_type_str (Series xs) = ''series''"
| "get_type_str (DataFrame df) = ''dataframe''"
| "get_type_str (NdArray xs) = ''ndarray''"

definition u_total_time_unit_dict ::
  "library \<Rightarrow> scaled_cast \<Rightarrow> (string \<times> pyfun) list" where
  "u_total_time_unit_dict ext cast =
     [(''datetime'', \<lparr>params = [''dt_obj'', ''_''],
                      body = (\<lambda>a. ext ''timestamp'' [a ! 0])\<rparr>),
      (''datetime64'', \<lparr>params = [''dt_obj'', ''unit'', ''float_class''],
                        body = (\<lambda>a. ext ''astype(timedelta64[unit]).astype''
                                       [a ! 0, a ! 1, a ! 2])\<rparr>),
      (''struct_time'', \<lparr>params = [''dt_obj'', ''unit''],
                         body = (\<lambda>a. ext ''datetime(*dt_obj[:6])'' [a ! 0])\<rparr>),
      (''arrow'', \<lparr>params = [''dt_obj'', ''unit''],
                   body = (\<lambda>a. ext ''float_timestamp'' [a ! 0])\<rparr>),
      (''dataframe'', \<lparr>params = [''dt_obj'', ''_'', ''int_class'', ''unit_factor''],
                       body = (\<lambda>a. u_total_time_complex_data ext cast
                                      (a ! 0) (a ! 2) (a ! 3))\<rparr>),
      (''series'', \<lparr>params = [''dt_obj'', ''_'', ''int_class'', ''unit_factor''],
                    body = (\<lambda>a. u_total_time_complex_data ext cast
                                   (a ! 0) (a ! 2) (a ! 3))\<rparr>),
      (''ndarray'', \<lparr>params = [''dt_obj'', ''unit'', ''float_class'', ''_''],
                     body = (\<lambda>a. ext ''astype(datetime64[unit]).astype''
                                    [a ! 0, a ! 1, a ! 2])\<rparr>)]"

text \<open>\<^verbatim>\<open>get_func_name()\<close> of \<^verbatim>\<open>introspection_utils\<close> gives the name of the running
  function for the messages; the name is written out in \<open>MethodError\<close>.\<close>

definition dict_get :: "(string \<times> 'v) list \<Rightarrow> pyval \<Rightarrow> 'v option" where
  "dict_get d k = (case k of Str s \<Rightarrow> map_of d s | _ \<Rightarrow> None)"

definition u_total_time_unit ::
  "library \<Rightarrow> global_parameters \<Rightarrow> scaled_cast \<Rightarrow> pyval \<Rightarrow> pyval \<Rightarrow> pyval \<Rightarrow> pyval \<Rightarrow>
   pyval result" where
  "u_total_time_unit ext gp cast datetime_obj unit float_class int_class =
     (let unit_fac =
            (case dict_get (unit_factor_dict gp) unit of None \<Rightarrow> NoneV | Some f \<Rightarrow> Num f);
          obj_type = get_type_str datetime_obj;
          attempt =
            (case map_of (u_total_time_unit_dict ext cast) obj_type of
               None \<Rightarrow> Inl (ValueError (UnsupportedObjectType obj_type))
             | Some conversion_func \<Rightarrow>
                 call conversion_func [datetime_obj, unit, float_class, int_class, unit_fac])
      in case attempt of
           Inl err \<Rightarrow> Inl (RuntimeError (MethodError ''_total_time_unit'' (msg_of err)))
         | Inr v \<Rightarrow> Inr v)"

section \<open>The converter between date and time objects\<close>

text \<open>
  The helper conversions (\<^verbatim>\<open>_to_string\<close>, \<^verbatim>\<open>_to_float\<close>, ...) keep their
  parameter lists, so that a call with the wrong number of arguments fails as it does in
  Python; what they compute from well-formed arguments is left to the libraries. No call of
  \<^verbatim>\<open>datetime_obj_converter\<close> gets as far as a table entry (lemma
  \<open>converter_never_returns\<close> below), so no property proved here depends on their bodies.
\<close>

definition helper :: "library \<Rightarrow> string \<Rightarrow> string list \<Rightarrow> pyfun" where
  "helper ext name ps = \<lparr>params = ps, body = ext name\<rparr>"

definition u_tzinfo_remover :: "library \<Rightarrow> pyfun" where
  "u_tzinfo_remover ext = helper ext ''_tzinfo_remover'' [''dt_obj'']"

definition u_to_string :: "library \<Rightarrow> pyfun" where
  "u_to_string ext = helper ext ''_to_string'' [''dt_obj'', ''unit'', ''dt_fmt_str'']"

definition u_to_float :: "library \<Rightarrow> pyfun" where
  "u_to_float ext = helper ext ''_to_float'' [''dt_obj'', ''unit'', ''float_class'']"

definition u_to_datetime :: "library \<Rightarrow> pyfun" where
  "u_to_datetime ext = helper ext ''_to_datetime'' [''dt_obj'', ''unit'']"

definition u_to_time_struct :: "library \<Rightarrow> pyfun" where
  "u_to_time_struct ext = helper ext ''_to_time_struct'' [''dt_obj'']"

definition u_to_pandas :: "library \<Rightarrow> pyfun" where
  "u_to_pandas ext = helper ext ''_to_pandas'' [''dt_obj'', ''unit'']"

definition u_to_numpy :: "library \<Rightarrow> pyfun" where
  "u_to_numpy ext = helper ext ''_to_numpy'' [''dt_obj'', ''unit'']"

definition u_to_arrow :: "library \<Rightarrow> pyfun" where
  "u_to_arrow ext = helper ext ''_to_arrow'' [''dt_obj'']"

definition lam :: "string list \<Rightarrow> (pyval list \<Rightarrow> pyval result) \<Rightarrow> pyfun" where
  "lam ps b = \<lparr>params = ps, body = b\<rparr>"

definition datetime_obj_conversion_dict :: "library \<Rightarrow> (string \<times> pyfun) list" where
  "datetime_obj_conversion_dict ext =
     [(''float'', lam [''dt_obj'', ''_''] (\<lambda>a. ext ''timestamp'' [a ! 0])),
      (''time'', lam [''dt_obj'', ''_''] (\<lambda>a. ext ''timetuple'' [a ! 0])),
      (''pandas'', lam [''dt_obj'', ''unit'', ''_'']
         (\<lambda>a. bind (call (u_tzinfo_remover ext) [a ! 0])
                  (\<lambda>d. ext ''pd.to_datetime(unit)'' [d, a ! 1]))),
      (''numpy'', lam [''dt_obj'', ''unit'', ''_'']
         (\<lambda>a. bind (call (u_tzinfo_remover ext) [a ! 0])
                  (\<lambda>d. ext ''np.datetime64'' [d, a ! 1]))),
      (''arrow'', lam [''dt_obj'', ''_''] (\<lambda>a. ext ''arrow.get'' [a ! 0])),
      (''str'', lam [''dt_obj'', ''_'', ''dt_fmt_str'']
         (\<lambda>a. call (u_to_string ext) [a ! 0, a ! 2]))]"

definition datetime64_obj_conversion_dict :: "library \<Rightarrow> (string \<times> pyfun) list" where
  "datetime64_obj_conversion_dict ext =
     [(''float'', lam [''dt_obj'', ''unit'', ''_''] (\<lambda>a. call (u_to_float ext) [a ! 0, a ! 1])),
      (''datetime'', lam [''dt_obj'', ''unit''] (\<lambda>a. call (u_to_datetime ext) [a ! 0, a ! 1])),
      (''time'', lam [''dt_obj'', ''_''] (\<lambda>a. call (u_to_time_struct ext) [a ! 0])),
      (''pandas'', lam [''dt_obj'', ''unit''] (\<lambda>a. call (u_to_pandas ext) [a ! 0, a ! 1])),
      (''arrow'', lam [''dt_obj'', ''_''] (\<lambda>a. call (u_to_arrow ext) [a ! 0])),
      (''str'', lam [''dt_obj'', ''_'', ''dt_fmt_str'']
         (\<lambda>a. bind (call (u_to_datetime ext) [a ! 0])
                  (\<lambda>d. call (u_to_string ext) [d, a ! 2])))]"

definition datetime_time_obj_conversion_dict :: "library \<Rightarrow> (string \<times> pyfun) list" where
  "datetime_time_obj_conversion_dict ext =
     [(''float'', lam [''dt_obj'', ''_''] (\<lambda>a. call (u_to_float ext) [a ! 0])),
      (''datetime'', lam [''dt_obj'', ''_''] (\<lambda>a. call (u_to_datetime ext) [a ! 0])),
      (''time'', lam [''dt_obj'', ''_''] (\<lambda>a. call (u_to_time_struct ext) [a ! 0])),
      (''pandas'', lam [''dt_obj'', ''_'']
         (\<lambda>a. bind (call (u_to_datetime ext) [a ! 0]) (\<lambda>d. call (u_to_pandas ext) [d]))),
      (''numpy'', lam [''dt_obj'', ''_'']
         (\<lambda>a. bind (call (u_to_datetime ext) [a ! 0]) (\<lambda>d. call (u_to_numpy ext) [d]))),
      (''arrow'', lam [''dt_obj'', ''_''] (\<lambda>a. call (u_to_arrow ext) [a ! 0])),
      (''str'', lam [''dt_obj'', ''_'', ''dt_fmt_str'']
         (\<lambda>a. call (u_to_string ext) [a ! 0, a ! 2]))]"

definition timestamp_obj_conversion_dict :: "library \<Rightarrow> (string \<times> pyfun) list" where
  "timestamp_obj_conversion_dict ext =
     [(''float'', lam [''dt_obj'', ''_''] (\<lambda>a. call (u_to_float ext) [a ! 0])),
      (''datetime'', lam [''dt_obj'', ''unit'', ''_'']
         (\<lambda>a. call (u_to_datetime ext) [a ! 0, a ! 1])),
      (''time'', lam [''dt_obj'', ''_''] (\<lambda>a. call (u_to_time_struct ext) [a ! 0])),
      (''numpy'', lam [''dt_obj'', ''_''] (\<lambda>a. ext ''to_numpy'' [a ! 0])),
      (''arrow'', lam [''dt_obj'', ''_''] (\<lambda>a. call (u_to_arrow ext) [a ! 0])),
      (''str'', lam [''dt_obj'', ''_'', ''dt_fmt_str'']
         (\<lambda>a. call (u_to_string ext) [a ! 0, a ! 2]))]"

definition arrow_obj_conversion_dict :: "library \<Rightarrow> (string \<times> pyfun) list" where
  "arrow_obj_conversion_dict ext =
     [(''float'', lam [''dt_obj'', ''_''] (\<lambda>a. call (u_to_float ext) [a ! 0])),
      (''datetime'', lam [''dt_obj'', ''unit''] (\<lambda>a. call (u_to_datetime ext) [a ! 0, a ! 1])),
      (''time'', lam [''dt_obj'', ''_''] (\<lambda>a. call (u_to_time_struct ext) [a ! 0])),
      (''pandas'', lam [''dt_obj'', ''unit'', ''_'']
         (\<lambda>a. call (u_to_pandas ext) [a ! 0, a ! 1])),
      (''numpy'', lam [''dt_obj'', ''unit'', ''_'']
         (\<lambda>a. call (u_to_numpy ext) [a ! 0, a ! 1])),
      (''str'', lam [''dt_obj'', ''_'', ''dt_fmt_str'']
         (\<lambda>a. call (u_to_string ext) [a ! 0, a ! 2]))]"

definition time_stt_obj_conversion_dict :: "library \<Rightarrow> (string \<times> pyfun) list" where
  "time_stt_obj_conversion_dict ext =
     [(''float'', lam [''dt_obj'', ''_''] (\<lambda>a. call (u_to_float ext) [a ! 0])),
      (''datetime'', lam [''dt_obj'', ''unit''] (\<lambda>a. call (u_to_datetime ext) [a ! 0, a ! 1])),
      (''pandas'', lam [''dt_obj'', ''unit'']
         (\<lambda>a. ext ''pd.Timestamp(*dt_obj[:6],unit)'' [a ! 0, a ! 1])),
      (''numpy'', lam [''dt_obj'', ''unit'']
         (\<lambda>a. ext ''np.datetime64(datetime(*dt_obj[:6]),unit)'' [a ! 0, a ! 1])),
      (''arrow'', lam [''dt_obj'', ''_''] (\<lambda>a. call (u_to_arrow ext) [a ! 0]))]"

text \<open>\<^verbatim>\<open>_total_time_unit\<close> as the callee of a positional call.\<close>

definition u_total_time_unit_fun :: "library \<Rightarrow> global_parameters \<Rightarrow> scaled_cast \<Rightarrow> pyfun" where
  "u_total_time_unit_fun ext gp cast =
     lam [''datetime_obj'', ''unit'', ''float_class'', ''int_class'']
       (\<lambda>a. u_total_time_unit ext gp cast (a ! 0) (a ! 1) (a ! 2) (a ! 3))"

definition u_dt_like_obj_conversion_dict ::
  "library \<Rightarrow> global_parameters \<Rightarrow> scaled_cast \<Rightarrow> (string \<times> pyfun) list" where
  "u_dt_like_obj_conversion_dict ext gp cast =
     [(''float'', lam [''dt_obj'', ''unit'', ''_'']
         (\<lambda>a. call (u_total_time_unit_fun ext gp cast) [a ! 0, a ! 1])),
      (''pandas'', lam [''dt_obj'', ''unit'', ''_'']
         (\<lambda>a. call (u_to_datetime ext) [a ! 0, a ! 1])),
      (''str'', lam [''dt_obj'', ''unit'', ''dt_fmt_str'']
         (\<lambda>a. call (u_to_string ext) [a ! 0, a ! 2, a ! 1]))]"

definition conversion_opt_dict ::
  "library \<Rightarrow> global_parameters \<Rightarrow> scaled_cast \<Rightarrow> (string \<times> (string \<times> pyfun) list) list" where
  "conversion_opt_dict ext gp cast =
     [(''datetime'', datetime_obj_conversion_dict ext),
      (''datetime64'', datetime64_obj_conversion_dict ext),
      (''time'', datetime_time_obj_conversion_dict ext),
      (''timestamp'', timestamp_obj_conversion_dict ext),
      (''arrow'', arrow_obj_conversion_dict ext),
      (''struct_time'', time_stt_obj_conversion_dict ext),
      (''dataframe'', u_dt_like_obj_conversion_dict ext gp cast),
      (''series'', u_dt_like_obj_conversion_dict ext gp cast),
      (''ndarray'', u_dt_like_obj_conversion_dict ext gp cast)]"

definition u_float_class_list :: "pyval list" where
  "u_float_class_list =
     [Cls ''np.float16'', Cls ''np.float32'', Str ''f'', Cls ''np.float64'', Str ''float'',
      Str ''d'', Cls ''np.float128'']"

definition u_int_class_list :: "pyval list" where
  "u_int_class_list =
     [Cls ''np.int8'', Cls ''np.int16'', Str ''i'', Cls ''np.float32'', Str ''int'',
      Cls ''np.int64'']"

definition quoted :: "string \<Rightarrow> string" where
  "quoted s = [CHR 0x27] @ s @ [CHR 0x27]"

text \<open>The nested \<^verbatim>\<open>perform_conversion(conversion_dict, obj, *args)\<close>: it calls the
  table entry with \<open>obj\<close> and the extra positional arguments, and wraps every exception of
  that call.\<close>

definition perform_conversion ::
  "string \<Rightarrow> (string \<times> pyfun) list \<Rightarrow> pyval \<Rightarrow> pyval list \<Rightarrow> pyval result" where
  "perform_conversion convert_to conversion_dict obj args =
     (case call_opt (map_of conversion_dict convert_to) (obj # args) of
        Inl err \<Rightarrow> Inl (RuntimeError (ConversionError convert_to (msg_of err)))
      | Inr v \<Rightarrow> Inr v)"

text \<open>
  \<^verbatim>\<open>datetime_obj_converter\<close>. Its last statement calls \<^verbatim>\<open>perform_conversion\<close>
  with two positional arguments and the keywords \<^verbatim>\<open>unit\<close>, \<^verbatim>\<open>float_class\<close>,
  \<^verbatim>\<open>int_class\<close> and \<^verbatim>\<open>dt_fmt_str\<close>; the arguments are bound before the body of
  \<^verbatim>\<open>perform_conversion\<close> and its \<^verbatim>\<open>try\<close> are entered.
\<close>

definition datetime_obj_converter ::
  "library \<Rightarrow> global_parameters \<Rightarrow> scaled_cast \<Rightarrow> pyval \<Rightarrow> string \<Rightarrow> string \<Rightarrow> pyval \<Rightarrow> pyval \<Rightarrow>
   string option \<Rightarrow> pyval result" where
  "datetime_obj_converter ext gp cast datetime_obj convert_to unit float_class int_class
       dt_fmt_str =
     (if convert_to = [] then Inl (ValueError ConvertToMissing)
      else
        guard (u_validate_option ''Time unit factor'' (Str unit)
                 (map (Str \<circ> fst) (unit_factor_dict gp)))
       (guard (u_validate_option ''Numpy float precision class'' float_class
                 u_float_class_list)
       (guard (u_validate_option ''Numpy integer precision class'' int_class
                 u_int_class_list)
          (let obj_type = get_type_str datetime_obj
           in case map_of (conversion_opt_dict ext gp cast) obj_type of
                None \<Rightarrow> Inl (KeyError (Library obj_type))
              | Some conversion_dict \<Rightarrow>
                  guard (u_validate_option
                           (''Object type conversion for object type '' @ quoted obj_type @ '' where'')
                           (Str convert_to) (map (Str \<circ> fst) conversion_dict))
                    (guard (bind_arguments [''conversion_dict'', ''obj''] True 2
                              [''unit'', ''float_class'', ''int_class'', ''dt_fmt_str''])
                       (perform_conversion convert_to conversion_dict datetime_obj []))))))"

section \<open>Concrete libraries and tables\<close>

text \<open>
  Modelled from the spec: the tables of \<^verbatim>\<open>global_parameters\<close> are not part of the
  sources. The unit lists are the ones the docstring of \<^verbatim>\<open>parse_time_string\<close> gives
  for NumPy and Pandas; the factor table is the one the design gives, which is also
  \<open>date_unit_factor_dict\<close> of the companion module.
\<close>

definition documented_parameters :: global_parameters where
  "documented_parameters =
     \<lparr>numpy_unit_list = [''Y'', ''M'', ''D'', ''h'', ''m'', ''s'', ''ms'', ''us'', ''ns''],
      pandas_unit_list = [''D'', ''s'', ''ms'', ''us'', ''ns''],
      unit_factor_dict = date_unit_factor_dict\<rparr>"

text \<open>A library in which every call succeeds and returns a record of the call.\<close>

definition echo_library :: library where
  "echo_library name args = Inr (Obj name args)"

text \<open>A library in which every call raises \<^verbatim>\<open>ValueError\<close>.\<close>

definition rejecting_library :: library where
  "rejecting_library name args = Inl (ValueError (Library name))"

text \<open>A \<^verbatim>\<open>format_string\<close> that returns the template and the components it was given.\<close>

definition echo_format :: "string \<Rightarrow> pynum list \<Rightarrow> (string \<times> pynum list) result" where
  "echo_format template components = Inr (template, components)"

text \<open>
  A stand-in for pandas on small tables of Python objects. The product is recorded, not
  computed; a text in the selection raises \<^verbatim>\<open>ValueError\<close> and \<^verbatim>\<open>None\<close> raises
  \<^verbatim>\<open>TypeError\<close>, as \<^verbatim>\<open>int()\<close> does for a text without a numeral and for
  \<^verbatim>\<open>None\<close>; the first such cell decides.
\<close>

fun cell_fault :: "pyval \<Rightarrow> pyerr option" where
  "cell_fault (Str s) = Some (ValueError (Library ''invalid literal for int()''))"
| "cell_fault NoneV = Some (TypeError (Library ''int() argument must be a string or a number''))"
| "cell_fault v = None"

definition recording_cast :: scaled_cast where
  "recording_cast sel int_class unit_fac =
     (case List.map_filter cell_fault (concat sel) of
        e # es \<Rightarrow> Inl e
      | [] \<Rightarrow>
          Inr (map (map (\<lambda>c. Obj ''astype(int_class) * unit_factor'' [c, int_class, unit_fac]))
                 sel))"

section \<open>The best-effort policy for tables, as the design states it\<close>

text \<open>
  The design asks that a column whose conversion raises is left unmodified and that every
  other column is converted. \<open>best_effort_column\<close> is that policy for one column and
  \<open>best_effort_table\<close> for a table; they are compared with the loop of the code below.
\<close>

definition best_effort_column ::
  "scaled_cast \<Rightarrow> pyval \<Rightarrow> pyval \<Rightarrow> pyval list \<Rightarrow> pyval list" where
  "best_effort_column cast int_class unit_fac c =
     (case cast [c] int_class unit_fac of Inl e \<Rightarrow> c | Inr [] \<Rightarrow> c | Inr (v # vs) \<Rightarrow> v)"

definition best_effort_table ::
  "scaled_cast \<Rightarrow> pyval \<Rightarrow> pyval \<Rightarrow> (string \<times> pyval list) list \<Rightarrow>
   (string \<times> pyval list) list" where
  "best_effort_table cast int_class unit_fac df =
     map (\<lambda>(n, c). (n, best_effort_column cast int_class unit_fac c)) df"

text \<open>The exceptions that the column loop of the code lets a column raise without
  leaving the loop.\<close>

definition skippable :: "scaled_cast \<Rightarrow> pyval \<Rightarrow> pyval \<Rightarrow> pyval list \<Rightarrow> bool" where
  "skippable cast int_class unit_fac c =
     (case cast [c] int_class unit_fac of Inl e \<Rightarrow> is_ValueError e | Inr vs \<Rightarrow> True)"

section \<open>Validation of the fractional precision\<close>

lemma validate_precision_None:
  "u_validate_precision None backend lo hi = Inl (TypeError (NotOrderable ''int'' ''NoneType''))"
  by (simp add: u_validate_precision_def)

text \<open>
  C6. For an integer precision the validator, with its default bounds 0 and 9, raises
  \<^verbatim>\<open>ValueError\<close> exactly when the value is below 0 or above 9, or when it is 7, 8 or 9
  and the backend is not \<^verbatim>\<open>"pandas"\<close>; in every other case it returns without raising.
\<close>

theorem validate_precision_fails_exactly:
  "u_validate_precision (Some p) backend 0 9 =
     (if p < 0 \<or> 9 < p then Inl (ValueError (PrecisionBetween 0 9))
      else if 7 \<le> p \<and> backend \<noteq> ''pandas'' then Inl (ValueError (OnlyPandasSupports p))
      else Inr ())"
  by (auto simp: u_validate_precision_def)

theorem validate_precision_fails_exactly_witness:
  "u_validate_precision (Some (- 1)) ''pandas'' 0 9 = Inl (ValueError (PrecisionBetween 0 9))
   \<and> u_validate_precision (Some 10) ''datetime'' 0 9 = Inl (ValueError (PrecisionBetween 0 9))
   \<and> u_validate_precision (Some 7) ''numpy'' 0 9 = Inl (ValueError (OnlyPandasSupports 7))
   \<and> u_validate_precision (Some 9) ''pandas'' 0 9 = Inr ()
   \<and> u_validate_precision (Some 6) ''arrow'' 0 9 = Inr ()"
  using validate_precision_fails_exactly [of "- 1" "''pandas''"]
    validate_precision_fails_exactly [of 10 "''datetime''"]
    validate_precision_fails_exactly [of 7 "''numpy''"]
    validate_precision_fails_exactly [of 9 "''pandas''"]
    validate_precision_fails_exactly [of 6 "''arrow''"]
  by simp

section \<open>Parsing an epoch offset with the default precision\<close>

lemma floated_time_parsing_keys:
  "map (Str \<circ> fst) (floated_time_parsing_dict ext) =
     map Str [''datetime'', ''time'', ''pandas'', ''numpy'', ''arrow'']"
  by (simp add: floated_time_parsing_dict_def)

lemma parse_float_time_None_never_returns:
  "\<exists>e. parse_float_time ext gp fs x None origin unit fmt modul = Inl e"
  by (auto simp: parse_float_time_def guard_def u_validate_option_def validate_precision_None)

text \<open>
  C2. The claim is that, with \<^verbatim>\<open>frac_precision=None\<close>, \<^verbatim>\<open>parse_float_time\<close>
  raises nothing for a supported module and a non-empty format string. The code does the
  opposite: for each of the six supported modules, every offset, origin and unit, and every
  non-empty format string, the call ends in the \<^verbatim>\<open>TypeError\<close> of the comparison
  \<^verbatim>\<open>7 <= None\<close> in \<^verbatim>\<open>_validate_precision\<close>, before the unit is validated and
  before anything is parsed.
\<close>

theorem parse_float_time_default_precision_raises:
  assumes "modul \<in> set [''str'', ''datetime'', ''time'', ''pandas'', ''numpy'', ''arrow'']"
    and "fmt \<noteq> []"
  shows "parse_float_time ext gp fs x None origin unit (Some fmt) modul =
           Inl (TypeError (NotOrderable ''int'' ''NoneType''))"
  using assms
  by (auto simp: parse_float_time_def guard_def u_validate_option_def
        floated_time_parsing_keys validate_precision_None)

theorem parse_float_time_default_precision_raises_witness:
  "''datetime'' \<in> set [''str'', ''datetime'', ''time'', ''pandas'', ''numpy'', ''arrow'']
   \<and> ''%Y-%m-%d'' \<noteq> []
   \<and> parse_float_time echo_library documented_parameters (\<lambda>t c. Inr (Str t)) (PInt 0) None
         ''unix'' ''us'' (Some ''%Y-%m-%d'') ''datetime'' =
       Inl (TypeError (NotOrderable ''int'' ''NoneType''))"
  using parse_float_time_default_precision_raises
    [of "''datetime''" "''%Y-%m-%d''" echo_library documented_parameters
        "\<lambda>t c. Inr (Str t)" "PInt 0" "''unix''" "''us''"]
  by simp

section \<open>Parsing a time string: the format string and the dispatch\<close>

lemma time_str_parsing_keys:
  "map (Str \<circ> fst) (time_str_parsing_dict ext) =
     map Str [''datetime'', ''dateutil'', ''pandas'', ''numpy'', ''arrow'']"
  by (simp add: time_str_parsing_dict_def)

lemma numpy_entry:
  "map_of (time_str_parsing_dict ext) ''numpy'' =
     Some \<lparr>params = [''datetime_str'', ''dt_fmt_str'', ''unit''],
           body = (\<lambda>a. ext ''np.datetime64'' [a ! 0, a ! 2])\<rparr>"
  by (simp add: time_str_parsing_dict_def)

lemma parse_time_string_numpy:
  "parse_time_string ext datetime_str dt_fmt_str ''numpy'' unit =
     (if truthy dt_fmt_str then Inl (TypeError (MissingArguments [''unit'']))
      else Inl (ValueError FormatStringMissing))"
  by (simp add: parse_time_string_def guard_def u_validate_option_def time_str_parsing_keys
        numpy_entry call_opt_def call_def)

text \<open>The part of C8 that holds: for each of the five supported modules, a missing or
  empty format string is reported before the library is called.\<close>

lemma missing_format_reported_first:
  assumes "modul \<in> set [''datetime'', ''dateutil'', ''pandas'', ''numpy'', ''arrow'']"
    and "\<not> truthy fmt"
  shows "parse_time_string ext text fmt modul unit = Inl (ValueError FormatStringMissing)"
  using assms
  by (auto simp: parse_time_string_def guard_def u_validate_option_def time_str_parsing_keys)

text \<open>And for the four modules other than \<^verbatim>\<open>"numpy"\<close>, a \<^verbatim>\<open>ValueError\<close> of the
  library becomes the format-mismatch error.\<close>

lemma mismatch_reported:
  assumes "ext name args = Inl (ValueError m)"
    and "fmt \<noteq> []"
    and "(modul, name, args) \<in> set
           [(''datetime'', ''datetime.strptime'', [Str text, Str fmt]),
            (''dateutil'', ''parser.parse'', [Str text, Str fmt]),
            (''pandas'', ''pd.to_datetime(format,unit)'', [Str text, Str fmt, Str unit]),
            (''arrow'', ''arrow.get'', [Str text, Str fmt])]"
  shows "parse_time_string ext text (Some fmt) modul unit = Inl (ValueError FormatMismatch)"
  using assms
  by (auto simp: parse_time_string_def guard_def u_validate_option_def time_str_parsing_keys
        time_str_parsing_dict_def call_opt_def call_def)

text \<open>
  C8. The claim is that, for every module, a text that does not conform to the format
  pattern makes \<^verbatim>\<open>parse_time_string\<close> raise the format-mismatch \<^verbatim>\<open>ValueError\<close>.
  For the module \<^verbatim>\<open>"numpy"\<close> the code raises \<^verbatim>\<open>TypeError\<close> instead: the table
  entry is called without its third argument, whatever the text and the library are.
\<close>

theorem parse_time_string_numpy_mismatch_is_TypeError:
  "parse_time_string ext ''not a date'' (Some ''%Y-%m-%d'') ''numpy'' ''ns'' =
     Inl (TypeError (MissingArguments [''unit'']))"
  by (simp add: parse_time_string_numpy)

theorem parse_time_string_numpy_mismatch_is_TypeError_witness:
  "parse_time_string rejecting_library ''not a date'' (Some ''%Y-%m-%d'') ''numpy'' ''ns'' =
     Inl (TypeError (MissingArguments [''unit'']))
   \<and> parse_time_string rejecting_library ''not a date'' (Some ''%Y-%m-%d'') ''datetime'' ''ns'' =
     Inl (ValueError FormatMismatch)"
  using parse_time_string_numpy_mismatch_is_TypeError [of rejecting_library]
    mismatch_reported [of rejecting_library "''datetime.strptime''"
      "[Str ''not a date'', Str ''%Y-%m-%d'']" "Library ''datetime.strptime''" "''%Y-%m-%d''"
      "''datetime''" "''not a date''" "''ns''"]
  by (simp add: rejecting_library_def)

text \<open>
  C10. With \<^verbatim>\<open>module="numpy"\<close>, \<^verbatim>\<open>parse_time_string\<close> returns no value for any
  text, format, unit and library: an empty or missing format string raises the
  missing-format \<^verbatim>\<open>ValueError\<close>, and with any other format string the three-parameter
  table entry is called with two arguments, which raises a \<^verbatim>\<open>TypeError\<close> that the
  handler for \<^verbatim>\<open>ValueError\<close> lets through.
\<close>

theorem parse_time_string_numpy_never_returns:
  "parse_time_string ext datetime_str dt_fmt_str ''numpy'' unit \<noteq> Inr v
   \<and> parse_time_string ext datetime_str dt_fmt_str ''numpy'' unit =
       (if truthy dt_fmt_str then Inl (TypeError (MissingArguments [''unit'']))
        else Inl (ValueError FormatStringMissing))"
  by (simp add: parse_time_string_numpy)

theorem parse_time_string_numpy_never_returns_witness:
  "parse_time_string echo_library ''2024-09-10'' (Some ''%Y-%m-%d'') ''numpy'' ''D''
     \<noteq> Inr (Obj ''np.datetime64'' [Str ''2024-09-10'', Str ''D''])
   \<and> parse_time_string echo_library ''2024-09-10'' (Some ''%Y-%m-%d'') ''numpy'' ''D'' =
       Inl (TypeError (MissingArguments [''unit'']))"
  using parse_time_string_numpy_never_returns
    [of echo_library "''2024-09-10''" "Some ''%Y-%m-%d''" "''D''"
        "Obj ''np.datetime64'' [Str ''2024-09-10'', Str ''D'']"]
  by simp

section \<open>The converter: validation and dispatch\<close>

lemma perform_conversion_call_fails:
  "bind_arguments [''conversion_dict'', ''obj''] True 2
     [''unit'', ''float_class'', ''int_class'', ''dt_fmt_str''] =
   Inl (TypeError (UnexpectedKeyword ''unit''))"
  by (simp add: bind_arguments_def)

lemma converter_never_returns:
  "\<exists>e. datetime_obj_converter ext gp cast obj convert_to unit fc ic fmt = Inl e"
  by (auto simp: datetime_obj_converter_def guard_def u_validate_option_def
        perform_conversion_call_fails Let_def split: option.splits)

lemma datetime_conversion_keys:
  "map (Str \<circ> fst) (datetime_obj_conversion_dict ext) =
     map Str [''float'', ''time'', ''pandas'', ''numpy'', ''arrow'', ''str'']"
  by (simp add: datetime_obj_conversion_dict_def)

lemma conversion_opt_datetime:
  "map_of (conversion_opt_dict ext gp cast) ''datetime'' = Some (datetime_obj_conversion_dict ext)"
  by (simp add: conversion_opt_dict_def)

text \<open>
  C1. The claim is that converting the naive \<^verbatim>\<open>datetime\<close> 1970-01-01T00:00:01 with
  \<^verbatim>\<open>convert_to="float"\<close> and \<^verbatim>\<open>unit="s"\<close> returns 1.0. The code returns nothing: for
  every \<^verbatim>\<open>datetime\<close> value and every supported unit and precision class, the validation
  passes and the call of \<^verbatim>\<open>perform_conversion\<close> with the keyword \<^verbatim>\<open>unit\<close> raises
  \<^verbatim>\<open>TypeError\<close>, before the table entry \<^verbatim>\<open>"float"\<close> is looked up.
\<close>

theorem converter_datetime_to_float_raises:
  assumes "get_type_str v = ''datetime''"
    and "unit \<in> set (map fst (unit_factor_dict gp))"
    and "float_class \<in> set u_float_class_list"
    and "int_class \<in> set u_int_class_list"
  shows "datetime_obj_converter ext gp cast v ''float'' unit float_class int_class fmt =
           Inl (TypeError (UnexpectedKeyword ''unit''))"
  using assms
  by (auto simp: datetime_obj_converter_def guard_def u_validate_option_def
        conversion_opt_datetime datetime_conversion_keys perform_conversion_call_fails Let_def)

theorem converter_datetime_to_float_raises_witness:
  "get_type_str (Obj ''datetime'' [Num (PInt 1970), Num (PInt 1), Num (PInt 1),
                                   Num (PInt 0), Num (PInt 0), Num (PInt 1)]) = ''datetime''
   \<and> ''s'' \<in> set (map fst (unit_factor_dict documented_parameters))
   \<and> Str ''d'' \<in> set u_float_class_list
   \<and> Str ''int'' \<in> set u_int_class_list
   \<and> datetime_obj_converter echo_library documented_parameters recording_cast
        (Obj ''datetime'' [Num (PInt 1970), Num (PInt 1), Num (PInt 1),
                           Num (PInt 0), Num (PInt 0), Num (PInt 1)])
        ''float'' ''s'' (Str ''d'') (Str ''int'') None =
       Inl (TypeError (UnexpectedKeyword ''unit''))"
  using converter_datetime_to_float_raises
    [of "Obj ''datetime'' [Num (PInt 1970), Num (PInt 1), Num (PInt 1),
                           Num (PInt 0), Num (PInt 0), Num (PInt 1)]"
        "''s''" documented_parameters "Str ''d''" "Str ''int''"
        echo_library recording_cast None]
  by (simp add: documented_parameters_def date_unit_factor_dict_def u_float_class_list_def
        u_int_class_list_def)

lemma self_conversion_always_rejected:
  assumes "get_type_str v = ''datetime''"
  shows "\<exists>explanation option allowed.
           datetime_obj_converter ext gp cast v ''datetime'' unit float_class int_class fmt =
             Inl (ValueError (NotSupported explanation option allowed))
           \<and> option \<notin> set allowed"
  using assms
  by (auto simp: datetime_obj_converter_def guard_def u_validate_option_def
        conversion_opt_datetime datetime_conversion_keys Let_def)

text \<open>
  C7. For every value whose type name is \<^verbatim>\<open>datetime\<close>, and every supported unit and
  precision class, asking \<^verbatim>\<open>datetime_obj_converter\<close> for \<^verbatim>\<open>convert_to="datetime"\<close>
  raises the \<^verbatim>\<open>ValueError\<close> of \<^verbatim>\<open>_validate_option\<close> that lists the legal targets
  \<^verbatim>\<open>float\<close>, \<^verbatim>\<open>time\<close>, \<^verbatim>\<open>pandas\<close>, \<^verbatim>\<open>numpy\<close>, \<^verbatim>\<open>arrow\<close> and \<^verbatim>\<open>str\<close>,
  which are the keys of \<^verbatim>\<open>datetime_obj_conversion_dict\<close>; \<^verbatim>\<open>datetime\<close> is not among
  them, and the result does not depend on the library, so no conversion has run.
\<close>

theorem datetime_self_conversion_rejected:
  assumes "get_type_str v = ''datetime''"
    and "unit \<in> set (map fst (unit_factor_dict gp))"
    and "float_class \<in> set u_float_class_list"
    and "int_class \<in> set u_int_class_list"
  shows "datetime_obj_converter ext gp cast v ''datetime'' unit float_class int_class fmt =
           Inl (ValueError (NotSupported
                  (''Object type conversion for object type '' @ quoted ''datetime'' @ '' where'')
                  (Str ''datetime'')
                  (map Str [''float'', ''time'', ''pandas'', ''numpy'', ''arrow'', ''str''])))
         \<and> map fst (datetime_obj_conversion_dict ext) =
             [''float'', ''time'', ''pandas'', ''numpy'', ''arrow'', ''str'']
         \<and> ''datetime'' \<notin> set (map fst (datetime_obj_conversion_dict ext))"
  using assms
  by (auto simp: datetime_obj_converter_def guard_def u_validate_option_def
        conversion_opt_datetime datetime_conversion_keys Let_def
        datetime_obj_conversion_dict_def)

theorem datetime_self_conversion_rejected_witness:
  "get_type_str (Obj ''datetime'' [Num (PInt 2024), Num (PInt 9), Num (PInt 10)]) = ''datetime''
   \<and> ''s'' \<in> set (map fst (unit_factor_dict documented_parameters))
   \<and> Str ''d'' \<in> set u_float_class_list
   \<and> Str ''int'' \<in> set u_int_class_list
   \<and> datetime_obj_converter echo_library documented_parameters recording_cast
        (Obj ''datetime'' [Num (PInt 2024), Num (PInt 9), Num (PInt 10)])
        ''datetime'' ''s'' (Str ''d'') (Str ''int'') None =
       Inl (ValueError (NotSupported
              (''Object type conversion for object type '' @ quoted ''datetime'' @ '' where'')
              (Str ''datetime'')
              (map Str [''float'', ''time'', ''pandas'', ''numpy'', ''arrow'', ''str''])))"
  using datetime_self_conversion_rejected
    [of "Obj ''datetime'' [Num (PInt 2024), Num (PInt 9), Num (PInt 10)]"
        "''s''" documented_parameters "Str ''d''" "Str ''int''"
        echo_library recording_cast None]
  by (simp add: documented_parameters_def date_unit_factor_dict_def u_float_class_list_def
        u_int_class_list_def)

section \<open>Back to an epoch offset\<close>

lemma total_time_unit_always_raises:
  "\<exists>m. u_total_time_unit ext gp cast obj unit fc ic =
         Inl (RuntimeError (MethodError ''_total_time_unit'' m))"
  by (auto simp: u_total_time_unit_def u_total_time_unit_dict_def call_def Let_def
        split: option.splits)

text \<open>With an explicit precision the first half does return, for instance with the module
  \<^verbatim>\<open>"datetime"\<close>: the parsed object is what \<^verbatim>\<open>datetime.fromtimestamp\<close> gives.\<close>

lemma parse_float_time_explicit_precision:
  assumes "0 \<le> p" and "p \<le> 6" and "fmt \<noteq> []"
  shows "parse_float_time ext gp fs x (Some p) origin unit (Some fmt) ''datetime'' =
           ext ''datetime.fromtimestamp'' [Num x]"
  using assms
  by (simp add: parse_float_time_def guard_def u_validate_option_def
        u_validate_precision_def u_validate_unit_def u_float_time_parser_def
        floated_time_parsing_dict_def call_opt_def call_def)

text \<open>
  C9. The claim is a round trip: \<^verbatim>\<open>parse_float_time\<close> on an epoch offset, then the
  conversion of the parsed object back to an offset in the same unit, gives the offset
  again. In the code the round trip never returns: with its default precision
  \<^verbatim>\<open>parse_float_time\<close> raises for every input, and for every object, unit and library
  both ways back raise, \<^verbatim>\<open>datetime_obj_converter\<close> with \<^verbatim>\<open>convert_to="float"\<close> and
  \<^verbatim>\<open>_total_time_unit\<close>, whose table entries take two to four arguments and are called
  with five.
\<close>

theorem epoch_roundtrip_never_returns:
  "(\<exists>e. parse_float_time ext gp fs f None ''unix'' u fmt modul = Inl e)
   \<and> (\<exists>e. datetime_obj_converter ext gp cast obj ''float'' u fc ic fmt' = Inl e)
   \<and> (\<exists>m. u_total_time_unit ext gp cast obj (Str u) fc ic =
            Inl (RuntimeError (MethodError ''_total_time_unit'' m)))"
  by (intro conjI parse_float_time_None_never_returns converter_never_returns
        total_time_unit_always_raises)

theorem epoch_roundtrip_never_returns_witness:
  "(\<exists>e. parse_float_time echo_library documented_parameters (\<lambda>t c. Inr (Str t)) (PFloat 1)
           None ''unix'' ''s'' (Some ''%H:%M:%S'') ''datetime'' = Inl e)
   \<and> (\<exists>e. datetime_obj_converter echo_library documented_parameters recording_cast
             (Obj ''datetime'' [Num (PFloat 1)]) ''float'' ''s'' (Str ''d'') (Str ''int'')
             None = Inl e)
   \<and> (\<exists>m. u_total_time_unit echo_library documented_parameters recording_cast
             (Obj ''datetime'' [Num (PFloat 1)]) (Str ''s'') (Str ''d'') (Str ''int'') =
            Inl (RuntimeError (MethodError ''_total_time_unit'' m)))"
  using epoch_roundtrip_never_returns
    [of echo_library documented_parameters "\<lambda>t c. Inr (Str t)" "PFloat 1" "''s''"
        "Some ''%H:%M:%S''" "''datetime''" recording_cast
        "Obj ''datetime'' [Num (PFloat 1)]" "Str ''d''" "Str ''int''" None]
  by simp

section \<open>Time components of an offset from an arbitrary origin\<close>

lemma int_time_parts:
  "(a::int) = 86400 * (a div 3600 div 24) + 3600 * (a div 3600 mod 24)
                + 60 * (a mod 3600 div 60) + a mod 3600 mod 60"
  by presburger

lemma floor_remainder_range:
  fixes q :: rat and n :: int
  assumes "0 < n"
  shows "0 \<le> q - of_int n * of_int \<lfloor>q / of_int n\<rfloor>"
    and "q - of_int n * of_int \<lfloor>q / of_int n\<rfloor> < of_int n"
  using floor_divide_lower [of "of_int n :: rat" q] floor_divide_upper [of "of_int n :: rat" q]
    assms
  by (simp_all add: algebra_simps)

lemma components_sum:
  assumes "py_divmod (py_floordiv x 3600) 24 = (days, hours)"
    and "py_divmod (py_mod x 3600) 60 = (minutes, seconds)"
  shows "val x = 86400 * val days + 3600 * val hours + 60 * val minutes + val seconds"
proof (cases x)
  case (PInt a)
  have d: "days = PInt (a div 3600 div 24)" "hours = PInt (a div 3600 mod 24)"
      "minutes = PInt (a mod 3600 div 60)" "seconds = PInt (a mod 3600 mod 60)"
    using assms PInt by (auto simp: py_divmod_def)
  have R: "rat_of_int a = rat_of_int (86400 * (a div 3600 div 24) + 3600 * (a div 3600 mod 24)
             + 60 * (a mod 3600 div 60) + a mod 3600 mod 60)"
    by (rule arg_cong [where f = rat_of_int, OF int_time_parts])
  show ?thesis unfolding PInt d val.simps
    by (subst R) (simp only: of_int_add of_int_mult of_int_numeral)
next
  case (PFloat q)
  then show ?thesis using assms by (auto simp: py_divmod_def algebra_simps)
qed

lemma components_range:
  assumes "py_divmod (py_floordiv x 3600) 24 = (days, hours)"
    and "py_divmod (py_mod x 3600) 60 = (minutes, seconds)"
  shows "0 \<le> val hours \<and> val hours < 24 \<and> 0 \<le> val minutes \<and> val minutes < 60
         \<and> 0 \<le> val seconds \<and> val seconds < 60"
proof (cases x)
  case (PInt a)
  then show ?thesis using assms by (auto simp: py_divmod_def)
next
  case (PFloat q)
  define r where "r = q - 3600 * of_int \<lfloor>q / 3600\<rfloor>"
  have r: "0 \<le> r" "r < 3600" using floor_remainder_range [of 3600 q] by (simp_all add: r_def)
  have h: "0 \<le> rat_of_int \<lfloor>q / 3600\<rfloor> - 24 * of_int \<lfloor>rat_of_int \<lfloor>q / 3600\<rfloor> / 24\<rfloor>"
      "rat_of_int \<lfloor>q / 3600\<rfloor> - 24 * of_int \<lfloor>rat_of_int \<lfloor>q / 3600\<rfloor> / 24\<rfloor> < 24"
    using floor_remainder_range [of 24 "rat_of_int \<lfloor>q / 3600\<rfloor>"] by simp_all
  have s: "0 \<le> r - 60 * of_int \<lfloor>r / 60\<rfloor>" "r - 60 * of_int \<lfloor>r / 60\<rfloor> < 60"
    using floor_remainder_range [of 60 r] by simp_all
  have m: "0 \<le> rat_of_int \<lfloor>r / 60\<rfloor>" "rat_of_int \<lfloor>r / 60\<rfloor> < 60"
  proof -
    have "0 \<le> r / 60" "r / 60 < 60" using r by simp_all
    then have "0 \<le> \<lfloor>r / 60\<rfloor>" "\<lfloor>r / 60\<rfloor> < 60" by (simp_all add: floor_less_iff)
    then show "0 \<le> rat_of_int \<lfloor>r / 60\<rfloor>" "rat_of_int \<lfloor>r / 60\<rfloor> < 60" by simp_all
  qed
  show ?thesis using assms PFloat h s m by (auto simp: py_divmod_def r_def)
qed

lemma days_nonneg:
  assumes "py_divmod (py_floordiv x 3600) 24 = (days, hours)" and "0 \<le> val x"
  shows "0 \<le> val days"
proof (cases x)
  case (PInt a)
  then show ?thesis using assms by (auto simp: py_divmod_def pos_imp_zdiv_nonneg_iff)
next
  case (PFloat q)
  then have "0 \<le> q" using assms by simp
  then have "0 \<le> \<lfloor>q / 3600\<rfloor>" by simp
  then have "0 \<le> rat_of_int \<lfloor>q / 3600\<rfloor> / 24" by simp
  then have "0 \<le> \<lfloor>rat_of_int \<lfloor>q / 3600\<rfloor> / 24\<rfloor>" by (simp only: zero_le_floor)
  then show ?thesis using assms PFloat by (auto simp: py_divmod_def)
qed

lemma round_half_even_close: "\<bar>of_int (round_half_even q) - q\<bar> \<le> 1 / 2"
proof -
  define f where "f = \<lfloor>q\<rfloor>"
  define d where "d = q - of_int f"
  have d: "0 \<le> d" "d < 1" unfolding d_def f_def by linarith+
  have q: "q = of_int f + d" by (simp add: d_def)
  have r: "round_half_even q =
      (if d < 1 / 2 then f else if 1 / 2 < d then f + 1 else if even f then f else f + 1)"
    by (simp add: round_half_even_def Let_def f_def d_def)
  show ?thesis unfolding r using d by (auto simp: q)
qed

lemma py_round_close:
  assumes "0 \<le> k"
  shows "\<bar>val (py_round s k) - val s\<bar> \<le> 1 / (2 * 10 ^ nat k)"
proof (cases s)
  case (PInt a)
  then show ?thesis using assms by simp
next
  case (PFloat q)
  define c :: rat where "c = 10 ^ nat k"
  define R where "R = rat_of_int (round_half_even (q * c))"
  have p: "0 < c" by (simp add: c_def)
  have h: "\<bar>R - q * c\<bar> \<le> 1 / 2" unfolding R_def by (rule round_half_even_close)
  have "\<bar>R - q * c\<bar> / c \<le> (1 / 2) / c"
    by (rule divide_right_mono [OF h]) (use p in simp)
  moreover have "(R - q * c) / c = R / c - q" using p by (simp add: diff_divide_distrib)
  then have "\<bar>R / c - q\<bar> = \<bar>R - q * c\<bar> / c" using p by (metis abs_divide abs_of_pos)
  ultimately have "\<bar>R / c - q\<bar> \<le> 1 / (2 * c)" by simp
  then show ?thesis using PFloat assms by (simp add: R_def c_def)
qed

lemma format_arbitrary_time_unfolded:
  assumes "py_divmod (py_floordiv x 3600) 24 = (days, hours)"
    and "py_divmod (py_mod x 3600) 60 = (minutes, seconds)"
  shows "u_format_arbitrary_time format_string x (Some p) =
           reraise_as_ValueError
             (if 0 < val days
                then format_string ''{} days {} hours {} minutes {} seconds''
                       [days, hours, minutes, py_round seconds (min p 6)]
              else format_string ''{} hours {} minutes {} seconds''
                     [hours, minutes, py_round seconds (min p 6)])"
proof -
  have m: "(if 6 < p then 6 else p) = min p 6" by simp
  show ?thesis
    unfolding u_format_arbitrary_time_def assms Let_def prod.case option.case m
    by (simp add: u_time_str_parts_fmts_def)
qed

text \<open>
  C3. For a non-negative offset \<open>x\<close> (an \<^verbatim>\<open>int\<close> or a \<^verbatim>\<open>float\<close>) and a precision
  \<open>p\<close> from 0 to 9, let \<open>days, hours = divmod(x // 3600, 24)\<close> and
  \<open>minutes, seconds = divmod(x % 3600, 60)\<close>. Then \<^verbatim>\<open>_format_arbitrary_time\<close> rounds
  \<open>seconds\<close> to \<open>min p 6\<close> decimal places and hands \<^verbatim>\<open>format_string\<close> the four-part
  template with days, hours, minutes and seconds when \<open>days > 0\<close>, and the three-part
  template with hours, minutes and seconds otherwise. The components are the mixed-radix
  digits of the offset: \<open>x = 86400 days + 3600 hours + 60 minutes + seconds\<close> with
  \<open>0 \<le> hours < 24\<close> (never 24 or 25), \<open>0 \<le> minutes < 60\<close>, \<open>0 \<le> seconds < 60\<close> and
  \<open>0 \<le> days\<close>, and the rounded seconds are within half a unit of the last kept decimal
  place of \<open>seconds\<close>. For the offset 90000 the components are 1, 1, 0 and 0.
\<close>

theorem format_arbitrary_time_components:
  assumes "0 \<le> val x" and "0 \<le> p" and "p \<le> 9"
    and "py_divmod (py_floordiv x 3600) 24 = (days, hours)"
    and "py_divmod (py_mod x 3600) 60 = (minutes, seconds)"
  shows "u_format_arbitrary_time format_string x (Some p) =
           reraise_as_ValueError
             (if 0 < val days
                then format_string ''{} days {} hours {} minutes {} seconds''
                       [days, hours, minutes, py_round seconds (min p 6)]
              else format_string ''{} hours {} minutes {} seconds''
                     [hours, minutes, py_round seconds (min p 6)])
         \<and> val x = 86400 * val days + 3600 * val hours + 60 * val minutes + val seconds
         \<and> 0 \<le> val days
         \<and> 0 \<le> val hours \<and> val hours < 24
         \<and> 0 \<le> val minutes \<and> val minutes < 60
         \<and> 0 \<le> val seconds \<and> val seconds < 60
         \<and> \<bar>val (py_round seconds (min p 6)) - val seconds\<bar> \<le> 1 / (2 * 10 ^ nat (min p 6))"
proof -
  have "0 \<le> min p 6" using assms(2) by simp
  then have cl:
    "\<bar>val (py_round seconds (min p 6)) - val seconds\<bar> \<le> 1 / (2 * 10 ^ nat (min p 6))"
    by (rule py_round_close)
  have e: "u_format_arbitrary_time format_string x (Some p) =
           reraise_as_ValueError
             (if 0 < val days
                then format_string ''{} days {} hours {} minutes {} seconds''
                       [days, hours, minutes, py_round seconds (min p 6)]
              else format_string ''{} hours {} minutes {} seconds''
                     [hours, minutes, py_round seconds (min p 6)])"
    by (rule format_arbitrary_time_unfolded [OF assms(4,5)])
  show ?thesis
    using e cl components_sum [OF assms(4,5)]
      components_range [OF assms(4,5)] days_nonneg [OF assms(4,1)]
    by blast
qed

theorem format_arbitrary_time_components_witness:
  "0 \<le> val (PInt 90000) \<and> (0::int) \<le> 9 \<and> (9::int) \<le> 9
   \<and> py_divmod (py_floordiv (PInt 90000) 3600) 24 = (PInt 1, PInt 1)
   \<and> py_divmod (py_mod (PInt 90000) 3600) 60 = (PInt 0, PInt 0)
   \<and> u_format_arbitrary_time echo_format (PInt 90000) (Some 9) =
       Inr (''{} days {} hours {} minutes {} seconds'', [PInt 1, PInt 1, PInt 0, PInt 0])
   \<and> py_divmod (py_floordiv (PFloat (58585 / 8)) 3600) 24 = (PFloat 0, PFloat 2)
   \<and> py_divmod (py_mod (PFloat (58585 / 8)) 3600) 60 = (PFloat 2, PFloat (25 / 8))
   \<and> u_format_arbitrary_time echo_format (PFloat (58585 / 8)) (Some 2) =
       Inr (''{} hours {} minutes {} seconds'', [PFloat 2, PFloat 2, PFloat (78 / 25)])"
proof -
  have a: "0 \<le> val (PInt 90000)" "(0::int) \<le> 9" "(9::int) \<le> 9" by simp_all
  have b: "py_divmod (py_floordiv (PInt 90000) 3600) 24 = (PInt 1, PInt 1)"
    by (simp add: py_divmod_def)
  have c: "py_divmod (py_mod (PInt 90000) 3600) 60 = (PInt 0, PInt 0)"
    by (simp add: py_divmod_def)
  have a': "0 \<le> val (PFloat (58585 / 8))" "(0::int) \<le> 2" "(2::int) \<le> 9" by simp_all
  have b': "py_divmod (py_floordiv (PFloat (58585 / 8)) 3600) 24 = (PFloat 0, PFloat 2)"
    by code_simp
  have c': "py_divmod (py_mod (PFloat (58585 / 8)) 3600) 60 = (PFloat 2, PFloat (25 / 8))"
    by code_simp
  have r: "py_round (PFloat (25 / 8)) 2 = PFloat (78 / 25)" by code_simp
  show ?thesis
    using a b c b' c' r
      format_arbitrary_time_components [OF a b c, of echo_format]
      format_arbitrary_time_components [OF a' b' c', of echo_format]
    by (simp add: echo_format_def reraise_as_ValueError_def)
qed

text \<open>Through \<^verbatim>\<open>parse_float_time\<close> the formatter is reached with \<^verbatim>\<open>module="str"\<close>
  and \<^verbatim>\<open>origin="arbitrary"\<close>, for a precision from 0 to 6; a precision from 7 to 9 is
  refused by the validator, since \<^verbatim>\<open>"str"\<close> is not \<^verbatim>\<open>"pandas"\<close>.\<close>

lemma parse_float_time_arbitrary_origin:
  assumes "0 \<le> p"
  shows "parse_float_time ext gp fs x (Some p) ''arbitrary'' unit fmt ''str'' =
           (if p \<le> 6 then u_format_arbitrary_time fs x (Some p)
            else if p \<le> 9 then Inl (ValueError (OnlyPandasSupports p))
            else Inl (ValueError (PrecisionBetween 0 9)))"
  using assms
  by (auto simp: parse_float_time_def guard_def u_validate_option_def
        u_validate_precision_def u_validate_unit_def u_parse_float_to_string_def)

section \<open>Total time of tables\<close>

subsection \<open>The helper on its own\<close>

text \<open>
  What \<^verbatim>\<open>_total_time_complex_data\<close> does when it is called directly with a table whose
  labels are all different: each selection is one column, and the loop follows the
  best-effort policy for the columns that raise \<^verbatim>\<open>ValueError\<close>, and only for them.
\<close>

lemma frame_put_other:
  assumes "n \<notin> fst ` set df"
  shows "frame_put df n vs = df"
  using assms by (induction df arbitrary: vs) auto

lemma columns_of_other:
  assumes "n \<notin> fst ` set df"
  shows "columns_of df n = []"
  using assms by (induction df) (auto simp: columns_of_def)

lemma columns_of_single:
  assumes "n \<notin> fst ` set pre" and "n \<notin> fst ` set rest"
  shows "columns_of (pre @ (n, c) # rest) n = [c]"
proof -
  have "columns_of (pre @ (n, c) # rest) n = columns_of pre n @ c # columns_of rest n"
    by (simp add: columns_of_def)
  then show ?thesis using columns_of_other [OF assms(1)] columns_of_other [OF assms(2)] by simp
qed

lemma frame_put_single:
  assumes "n \<notin> fst ` set pre" and "n \<notin> fst ` set rest"
  shows "frame_put (pre @ (n, c) # rest) n vs =
           pre @ (n, case vs of [] \<Rightarrow> c | v # vs' \<Rightarrow> v) # rest"
  using assms(1)
proof (induction pre)
  case Nil
  then show ?case using frame_put_other [OF assms(2)] by (cases vs) simp_all
next
  case (Cons a pre)
  then show ?case by (cases a) auto
qed

text \<open>The loop invariant: the columns before the current one hold their final values, the
  current one and those after it their original values.\<close>

lemma convert_columns_distinct:
  assumes "distinct (map fst (pre @ suf))"
    and "list_all (\<lambda>(n, c). skippable cast ic f c) suf"
  shows "convert_columns cast ic f (map fst suf) (pre @ suf) =
           Inr (pre @ best_effort_table cast ic f suf)"
  using assms
proof (induction suf arbitrary: pre)
  case Nil
  then show ?case by (simp add: best_effort_table_def)
next
  case (Cons a suf)
  obtain n c where a: "a = (n, c)" by (cases a)
  have fresh: "n \<notin> fst ` set pre" "n \<notin> fst ` set suf" using Cons.prems(1) a by auto
  have sel: "select (pre @ (n, c) # suf) n = Inr [c]"
    by (simp add: select_def columns_of_single [OF fresh])
  have d: "distinct (map fst ((pre @ [(n, w)]) @ suf))" for w
    using Cons.prems(1) a by auto
  have rest: "list_all (\<lambda>(n, c). skippable cast ic f c) suf" using Cons.prems(2) by simp
  have sk: "skippable cast ic f c" using Cons.prems(2) a by simp
  show ?case
  proof (cases "cast [c] ic f")
    case (Inl e)
    then have "is_ValueError e" using sk by (simp add: skippable_def)
    moreover have "convert_columns cast ic f (map fst suf) ((pre @ [(n, c)]) @ suf) =
        Inr ((pre @ [(n, c)]) @ best_effort_table cast ic f suf)"
      by (rule Cons.IH [OF d rest])
    ultimately show ?thesis using Inl sel a
      by (simp add: bind_def best_effort_table_def best_effort_column_def)
  next
    case (Inr vs)
    define w where "w = (case vs of [] \<Rightarrow> c | v # vs' \<Rightarrow> v)"
    have put: "frame_put (pre @ (n, c) # suf) n vs = (pre @ [(n, w)]) @ suf"
      using frame_put_single [OF fresh, of c vs] by (simp add: w_def)
    have b: "best_effort_column cast ic f c = w"
      using Inr by (simp add: best_effort_column_def w_def split: list.splits)
    have "convert_columns cast ic f (map fst suf) ((pre @ [(n, w)]) @ suf) =
        Inr ((pre @ [(n, w)]) @ best_effort_table cast ic f suf)"
      by (rule Cons.IH [OF d rest])
    then show ?thesis using Inr sel a put b
      by (simp add: bind_def best_effort_table_def)
  qed
qed

lemma helper_follows_best_effort:
  assumes "distinct (map fst df)"
    and "list_all (\<lambda>(n, c). skippable cast ic f c) df"
  shows "u_total_time_complex_data ext cast (DataFrame df) ic f =
           Inr (DataFrame (best_effort_table cast ic f df))"
    and "map fst (best_effort_table cast ic f df) = map fst df"
proof -
  have "convert_columns cast ic f (map fst df) df = Inr (best_effort_table cast ic f df)"
    using convert_columns_distinct [of "[]" df cast ic f] assms by simp
  then show "u_total_time_complex_data ext cast (DataFrame df) ic f =
      Inr (DataFrame (best_effort_table cast ic f df))"
    by (simp add: u_total_time_complex_data_def)
  show "map fst (best_effort_table cast ic f df) = map fst df"
    by (simp add: best_effort_table_def case_prod_unfold comp_def)
qed

text \<open>A column of texts raises \<^verbatim>\<open>ValueError\<close> and is kept; a column of \<^verbatim>\<open>None\<close>
  raises \<^verbatim>\<open>TypeError\<close>, which leaves the loop and reaches the caller as
  \<^verbatim>\<open>RuntimeError\<close>.\<close>

lemma helper_keeps_text_column:
  "u_total_time_complex_data echo_library recording_cast
     (DataFrame [(''start'', [Num (PInt 1), Num (PInt 2)]),
                 (''note'', [Str ''first'', Str ''second'']),
                 (''end'', [Num (PInt 3), Num (PInt 4)])])
     (Str ''int'') (Num (PInt 1000)) =
   Inr (DataFrame
     [(''start'', [Obj ''astype(int_class) * unit_factor'' [Num (PInt 1), Str ''int'', Num (PInt 1000)],
                   Obj ''astype(int_class) * unit_factor'' [Num (PInt 2), Str ''int'', Num (PInt 1000)]]),
      (''note'', [Str ''first'', Str ''second'']),
      (''end'', [Obj ''astype(int_class) * unit_factor'' [Num (PInt 3), Str ''int'', Num (PInt 1000)],
                 Obj ''astype(int_class) * unit_factor'' [Num (PInt 4), Str ''int'', Num (PInt 1000)]])])"
  by (simp add: u_total_time_complex_data_def select_def columns_of_def bind_def
        recording_cast_def)

lemma helper_lets_TypeError_escape:
  "u_total_time_complex_data echo_library recording_cast
     (DataFrame [(''start'', [Num (PInt 1), Num (PInt 2)]),
                 (''note'', [NoneV, NoneV]),
                 (''end'', [Num (PInt 3), Num (PInt 4)])])
     (Str ''int'') (Num (PInt 1000)) =
   Inl (RuntimeError (MethodError ''_total_time_complex_data''
          (Library ''int() argument must be a string or a number'')))"
  by (simp add: u_total_time_complex_data_def select_def columns_of_def bind_def
        recording_cast_def)

text \<open>A repeated label is selected, converted and assigned as a whole, once for each of its
  occurrences in the column index.\<close>

lemma helper_repeated_label:
  "u_total_time_complex_data echo_library (\<lambda>sel ic f. Inr (map (map (\<lambda>c. Obj ''*'' [c])) sel))
     (DataFrame [(''t'', [Num (PInt 1)]), (''t'', [Num (PInt 2)])]) (Str ''int'') (Num (PInt 1000)) =
   Inr (DataFrame [(''t'', [Obj ''*'' [Obj ''*'' [Num (PInt 1)]]]),
                   (''t'', [Obj ''*'' [Obj ''*'' [Num (PInt 2)]]])])"
  by (simp add: u_total_time_complex_data_def select_def columns_of_def bind_def)

subsection \<open>Through the converter\<close>

lemma conversion_opt_dataframe:
  "map_of (conversion_opt_dict ext gp cast) ''dataframe'' =
     Some (u_dt_like_obj_conversion_dict ext gp cast)"
  by (simp add: conversion_opt_dict_def)

lemma dt_like_conversion_keys:
  "map (Str \<circ> fst) (u_dt_like_obj_conversion_dict ext gp cast) =
     map Str [''float'', ''pandas'', ''str'']"
  by (simp add: u_dt_like_obj_conversion_dict_def)

lemma dt_like_float_entry_fails:
  "call_opt (map_of (u_dt_like_obj_conversion_dict ext gp cast) ''float'') [obj, unit, x] =
     Inl (TypeError (MissingArguments [''float_class'', ''int_class'']))"
  by (simp add: u_dt_like_obj_conversion_dict_def lam_def call_opt_def call_def
        u_total_time_unit_fun_def)

lemma total_time_unit_table_fails:
  "u_total_time_unit ext gp cast (DataFrame df) unit float_class int_class =
     Inl (RuntimeError (MethodError ''_total_time_unit'' (TooManyArguments 4 5)))"
  by (simp add: u_total_time_unit_def u_total_time_unit_dict_def call_def Let_def)

text \<open>
  C4. The claim is that the converter, asked for \<^verbatim>\<open>convert_to="float"\<close> on a
  \<^verbatim>\<open>DataFrame\<close>, converts the columns it can, leaves the others, and lets no exception
  reach the caller. The code lets one reach the caller every time: for every table and
  every supported unit and precision class, \<^verbatim>\<open>datetime_obj_converter\<close> raises
  \<^verbatim>\<open>TypeError\<close> when it calls \<^verbatim>\<open>perform_conversion\<close> with the keyword
  \<^verbatim>\<open>unit\<close>. Behind that call two more calls cannot succeed: the table entry
  \<^verbatim>\<open>"float"\<close> calls \<^verbatim>\<open>_total_time_unit\<close> with two of its four arguments, and
  \<^verbatim>\<open>_total_time_unit\<close> calls the four-parameter entry for tables with five arguments.
  So \<^verbatim>\<open>_total_time_complex_data\<close> is never reached from the converter.
\<close>

theorem converter_table_to_float_raises:
  assumes "unit \<in> set (map fst (unit_factor_dict gp))"
    and "float_class \<in> set u_float_class_list"
    and "int_class \<in> set u_int_class_list"
  shows "datetime_obj_converter ext gp cast (DataFrame df) ''float'' unit float_class int_class
           fmt = Inl (TypeError (UnexpectedKeyword ''unit''))
         \<and> call_opt (map_of (u_dt_like_obj_conversion_dict ext gp cast) ''float'')
             [DataFrame df, Str unit, opt_str fmt] =
           Inl (TypeError (MissingArguments [''float_class'', ''int_class'']))
         \<and> u_total_time_unit ext gp cast (DataFrame df) (Str unit) float_class int_class =
           Inl (RuntimeError (MethodError ''_total_time_unit'' (TooManyArguments 4 5)))"
proof -
  have "datetime_obj_converter ext gp cast (DataFrame df) ''float'' unit float_class int_class
          fmt = Inl (TypeError (UnexpectedKeyword ''unit''))"
    using assms
    by (auto simp: datetime_obj_converter_def guard_def u_validate_option_def
          conversion_opt_dataframe dt_like_conversion_keys perform_conversion_call_fails Let_def)
  then show ?thesis
    using dt_like_float_entry_fails total_time_unit_table_fails by simp
qed

theorem converter_table_to_float_raises_witness:
  "''s'' \<in> set (map fst (unit_factor_dict documented_parameters))
   \<and> Str ''d'' \<in> set u_float_class_list
   \<and> Str ''int'' \<in> set u_int_class_list
   \<and> datetime_obj_converter echo_library documented_parameters recording_cast
        (DataFrame [(''start'', [Num (PInt 1), Num (PInt 2)]),
                    (''note'', [Str ''first'', Str ''second'']),
                    (''end'', [Num (PInt 3), Num (PInt 4)])])
        ''float'' ''s'' (Str ''d'') (Str ''int'') None =
       Inl (TypeError (UnexpectedKeyword ''unit''))
   \<and> u_total_time_unit echo_library documented_parameters recording_cast
        (DataFrame [(''start'', [Num (PInt 1), Num (PInt 2)]),
                    (''note'', [Str ''first'', Str ''second'']),
                    (''end'', [Num (PInt 3), Num (PInt 4)])])
        (Str ''s'') (Str ''d'') (Str ''int'') =
       Inl (RuntimeError (MethodError ''_total_time_unit'' (TooManyArguments 4 5)))"
  using converter_table_to_float_raises
    [of "''s''" documented_parameters "Str ''d''" "Str ''int''" echo_library recording_cast
        "[(''start'', [Num (PInt 1), Num (PInt 2)]),
          (''note'', [Str ''first'', Str ''second'']),
          (''end'', [Num (PInt 3), Num (PInt 4)])]" None]
  by (simp add: documented_parameters_def date_unit_factor_dict_def u_float_class_list_def
        u_int_class_list_def)

section \<open>The factor table and the companion module's total time\<close>

lemma date_unit_factor_table:
  "map_of date_unit_factor_dict ''D'' = Some (PInt 1000)
   \<and> map_of date_unit_factor_dict ''s'' = Some (PInt 1)
   \<and> map_of date_unit_factor_dict ''ms'' = Some (PFloat (1 / 1000))
   \<and> map_of date_unit_factor_dict ''us'' = Some (PFloat (1 / 1000000))
   \<and> map_of date_unit_factor_dict ''ns'' = Some (PFloat (1 / 1000000000))
   \<and> map fst date_unit_factor_dict = [''D'', ''s'', ''ms'', ''us'', ''ns'']"
  by (simp add: date_unit_factor_dict_def)

text \<open>What the sibling \<^verbatim>\<open>_total_time_complex_data\<close> of \<^verbatim>\<open>time_formatters.py\<close>
  returns for a \<^verbatim>\<open>Series\<close>: the product that pandas computes.\<close>

lemma series_total_time:
  assumes "cast [col] ic f = Inr [v]"
  shows "u_total_time_complex_data ext cast (Series col) ic f = Inr (Series v)"
  using assms by (simp add: u_total_time_complex_data_def)

text \<open>
  C5. The factor table of the companion module is the one the claim gives. The claim goes
  on to say that a \<^verbatim>\<open>Series\<close> or \<^verbatim>\<open>DataFrame\<close> column converted to total time is its
  integer value times the factor. \<^verbatim>\<open>total_time_complex_data\<close> of the companion module
  computes that product and drops it: whenever it returns, it returns \<^verbatim>\<open>None\<close> for a
  \<^verbatim>\<open>Series\<close> and the unconverted input for a \<^verbatim>\<open>DataFrame\<close>.
\<close>

theorem total_time_complex_data_drops_product:
  "(case total_time_complex_data cast (Series col) ic f of
      Inl e \<Rightarrow> True | Inr r \<Rightarrow> r = NoneV)
   \<and> (case total_time_complex_data cast (DataFrame df) ic f of
        Inl e \<Rightarrow> True | Inr r \<Rightarrow> r = DataFrame df)"
  by (auto simp: total_time_complex_data_def split: sum.splits)

theorem total_time_complex_data_drops_product_witness:
  "total_time_complex_data recording_cast (Series [Num (PInt 1500), Num (PInt 2000)])
     (Str ''int'') (Num (PFloat (1 / 1000))) = Inr NoneV
   \<and> total_time_complex_data recording_cast
       (DataFrame [(''t'', [Num (PInt 1500), Num (PInt 2000)])])
       (Str ''int'') (Num (PFloat (1 / 1000))) =
     Inr (DataFrame [(''t'', [Num (PInt 1500), Num (PInt 2000)])])
   \<and> u_total_time_complex_data echo_library recording_cast
       (Series [Num (PInt 1500), Num (PInt 2000)])
       (Str ''int'') (Num (PFloat (1 / 1000))) =
     Inr (Series
       [Obj ''astype(int_class) * unit_factor''
          [Num (PInt 1500), Str ''int'', Num (PFloat (1 / 1000))],
        Obj ''astype(int_class) * unit_factor''
          [Num (PInt 2000), Str ''int'', Num (PFloat (1 / 1000))]])"
  using total_time_complex_data_drops_product
    [of recording_cast "[Num (PInt 1500), Num (PInt 2000)]" "Str ''int''"
        "Num (PFloat (1 / 1000))" "[(''t'', [Num (PInt 1500), Num (PInt 2000)])]"]
  by (simp add: total_time_complex_data_def u_total_time_complex_data_def select_def
        columns_of_def bind_def recording_cast_def)

end
